theory Spec2Isabelle
  imports Complex_Main "HOL-Library.Word" "HOL-Library.AList"
begin

section \<open>Values, documents and the library the program stands on\<close>

text \<open>
  The service keeps its data in three MongoDB collections of documents; a document is a
  Python dict from field names to dynamically typed values. Strings are sequences of code
  points below 256 (\<^typ>\<open>char\<close>), numbers (JSON numbers, \<^verbatim>\<open>float\<close>) are reals without
  NaN, a \<^verbatim>\<open>datetime\<close> is an aware instant counted in microseconds, and an
  \<^verbatim>\<open>ObjectId\<close> is its twelve bytes, read as one 96-bit word.
\<close>

type_synonym ObjectId = "96 word"

datatype datetime = Datetime int

datatype pyval =
    VNone
  | VBool bool
  | VNum real
  | VStr string
  | VOid ObjectId
  | VDatetime datetime
  | VList "pyval list"
  | VDict "(string \<times> pyval) list"

type_synonym doc = "(string \<times> pyval) list"

datatype error =
    HTTPException nat string
  | KeyError string
  | TypeError
  | IndexError
  | DuplicateKeyError
  | WriteError

text \<open>
  Library functions whose results the program only passes on are parameters:
  \<^verbatim>\<open>hashlib.sha256(s.encode()).hexdigest()\<close>,
  \<^verbatim>\<open>v.astimezone(timezone.utc).isoformat()\<close>, and \<^verbatim>\<open>str(v)\<close> for the values
  whose text is not written out below.
\<close>

record env =
  sha256_hexdigest :: "string \<Rightarrow> string"
  utc_isoformat :: "datetime \<Rightarrow> string"
  str_other :: "pyval \<Rightarrow> string"

subsection \<open>Dicts\<close>

text \<open>
  A dict is an association list in insertion order: \<^verbatim>\<open>d[k] = v\<close> replaces the value in
  place or appends the key (\<^const>\<open>AList.update\<close>), \<^verbatim>\<open>d.pop(k)\<close> removes it
  (\<^const>\<open>AList.delete\<close>), \<^verbatim>\<open>d.get(k)\<close> is \<^const>\<open>map_of\<close> with \<^verbatim>\<open>None\<close> for a
  missing key, and \<^verbatim>\<open>d[k]\<close> raises \<^verbatim>\<open>KeyError\<close>.
\<close>

definition dict_get :: "doc \<Rightarrow> string \<Rightarrow> pyval" where
  "dict_get d k = (case map_of d k of None \<Rightarrow> VNone | Some v \<Rightarrow> v)"

definition getitem :: "doc \<Rightarrow> string \<Rightarrow> error + pyval" where
  "getitem d k = (case map_of d k of None \<Rightarrow> Inl (KeyError k) | Some v \<Rightarrow> Inr v)"

text \<open>\<^verbatim>\<open>v[k]\<close> on a value that came out of a document: only a dict can be indexed by a string.\<close>

definition val_getitem :: "pyval \<Rightarrow> string \<Rightarrow> error + pyval" where
  "val_getitem v k = (case v of VDict d \<Rightarrow> getitem d k | _ \<Rightarrow> Inl TypeError)"

text \<open>Truthiness (\<^verbatim>\<open>if v\<close>, \<^verbatim>\<open>not v\<close>).\<close>

fun py_truthy :: "pyval \<Rightarrow> bool" where
  "py_truthy VNone = False"
| "py_truthy (VBool b) = b"
| "py_truthy (VNum x) = (x \<noteq> 0)"
| "py_truthy (VStr s) = (s \<noteq> [])"
| "py_truthy (VOid _) = True"
| "py_truthy (VDatetime _) = True"
| "py_truthy (VList xs) = (xs \<noteq> [])"
| "py_truthy (VDict d) = (d \<noteq> [])"

text \<open>\<^verbatim>\<open>if not doc\<close> on the result of \<^verbatim>\<open>find_one\<close>: \<^verbatim>\<open>None\<close> and the empty dict are falsy.\<close>

definition doc_truthy :: "doc option \<Rightarrow> bool" where
  "doc_truthy r = (case r of None \<Rightarrow> False | Some d \<Rightarrow> d \<noteq> [])"

text \<open>
  Python's \<^verbatim>\<open>==\<close>: \<^verbatim>\<open>bool\<close> is a number (\<^verbatim>\<open>True == 1\<close>), lists compare element by
  element, dicts compare as maps, values of different kinds differ.
\<close>

fun py_eq :: "pyval \<Rightarrow> pyval \<Rightarrow> bool" where
  "py_eq VNone VNone = True"
| "py_eq (VBool a) (VBool b) = (a = b)"
| "py_eq (VBool a) (VNum y) = ((if a then 1 else 0) = y)"
| "py_eq (VNum x) (VBool b) = (x = (if b then 1 else 0))"
| "py_eq (VNum x) (VNum y) = (x = y)"
| "py_eq (VStr s) (VStr t) = (s = t)"
| "py_eq (VOid a) (VOid b) = (a = b)"
| "py_eq (VDatetime a) (VDatetime b) = (a = b)"
| "py_eq (VList xs) (VList ys) = list_all2 py_eq xs ys"
| "py_eq (VDict d) (VDict e) =
     (set (map fst d) = set (map fst e) \<and>
      list_all (\<lambda>(k, v). case map_of e k of None \<Rightarrow> False | Some w \<Rightarrow> py_eq v w) d)"
| "py_eq _ _ = False"

subsection \<open>Strings\<close>

text \<open>\<^verbatim>\<open>str.lower()\<close> on code points below 256: A-Z and the Latin-1 capitals.\<close>

definition lower_char :: "char \<Rightarrow> char" where
  "lower_char c =
     (let n = (of_char c :: nat)
      in if (65 \<le> n \<and> n \<le> 90) \<or> (192 \<le> n \<and> n \<le> 222 \<and> n \<noteq> 215)
         then char_of (n + 32) else c)"

definition lower :: "string \<Rightarrow> string" where
  "lower s = map lower_char s"

text \<open>\<^verbatim>\<open>str.strip()\<close>: whitespace is removed at both ends.\<close>

definition is_space :: "char \<Rightarrow> bool" where
  "is_space c =
     (let n = (of_char c :: nat)
      in (9 \<le> n \<and> n \<le> 13) \<or> (28 \<le> n \<and> n \<le> 32) \<or> n = 133 \<or> n = 160)"

definition strip :: "string \<Rightarrow> string" where
  "strip s = rev (dropWhile is_space (rev (dropWhile is_space s)))"

text \<open>\<^verbatim>\<open>s.split(" ", 1)\<close>: one piece when there is no space, else two, cut at the first.\<close>

definition split1 :: "string \<Rightarrow> string list" where
  "split1 s =
     (case dropWhile (\<lambda>c. c \<noteq> CHR '' '') s of
        [] \<Rightarrow> [s]
      | _ # rest \<Rightarrow> [takeWhile (\<lambda>c. c \<noteq> CHR '' '') s, rest])"

definition startswith :: "string \<Rightarrow> string \<Rightarrow> bool" where
  "startswith s p = (take (length p) s = p)"

subsection \<open>Hexadecimal text, tokens and object identifiers\<close>

definition hex_digit :: "nat \<Rightarrow> char" where
  "hex_digit n = ''0123456789abcdef'' ! (n mod 16)"

definition hex_val :: "char \<Rightarrow> nat option" where
  "hex_val c =
     (let n = (of_char c :: nat)
      in if 48 \<le> n \<and> n \<le> 57 then Some (n - 48)
         else if 97 \<le> n \<and> n \<le> 102 then Some (n - 87)
         else if 65 \<le> n \<and> n \<le> 70 then Some (n - 55)
         else None)"

text \<open>\<open>to_hex n v\<close>: the last \<open>n\<close> hexadecimal digits of \<open>v\<close>, most significant first.\<close>

fun to_hex :: "nat \<Rightarrow> nat \<Rightarrow> string" where
  "to_hex 0 v = []"
| "to_hex (Suc n) v = to_hex n (v div 16) @ [hex_digit (v mod 16)]"

fun hex_value :: "nat \<Rightarrow> string \<Rightarrow> nat option" where
  "hex_value acc [] = Some acc"
| "hex_value acc (c # cs) =
     (case hex_val c of None \<Rightarrow> None | Some d \<Rightarrow> hex_value (16 * acc + d) cs)"

text \<open>\<^verbatim>\<open>str(ObjectId)\<close> is 24 lower-case hexadecimal digits.\<close>

definition str_oid :: "ObjectId \<Rightarrow> string" where
  "str_oid w = to_hex 24 (unat w)"

text \<open>\<^verbatim>\<open>secrets.token_hex(n)\<close>: the hexadecimal text of the \<open>n\<close> random bytes drawn.\<close>

definition token_hex :: "8 word list \<Rightarrow> string" where
  "token_hex bs = concat (map (\<lambda>b. to_hex 2 (unat b)) bs)"

text \<open>\<^verbatim>\<open>str(v)\<close>.\<close>

definition py_str :: "env \<Rightarrow> pyval \<Rightarrow> string" where
  "py_str E v =
     (case v of
        VOid w \<Rightarrow> str_oid w
      | VStr s \<Rightarrow> s
      | VNone \<Rightarrow> ''None''
      | VBool b \<Rightarrow> (if b then ''True'' else ''False'')
      | _ \<Rightarrow> str_other E v)"

section \<open>Utility helpers\<close>

text \<open>
  \<^verbatim>\<open>to_object_id\<close>: \<^verbatim>\<open>ObjectId(id_str)\<close> accepts a string of 24 hexadecimal digits
  (either case); any exception becomes a 400.
\<close>

definition to_object_id :: "string \<Rightarrow> error + ObjectId" where
  "to_object_id id_str =
     (if length id_str = 24 then
        (case hex_value 0 id_str of
           Some v \<Rightarrow> Inr (of_nat v)
         | None \<Rightarrow> Inl (HTTPException 400 ''Invalid ID format''))
      else Inl (HTTPException 400 ''Invalid ID format''))"

text \<open>
  \<^verbatim>\<open>serialize\<close>. The loop over \<^verbatim>\<open>list(d.items())\<close> assigns \<^verbatim>\<open>d[k]\<close> for keys that are
  already there, so it rewrites the values in place.
\<close>

definition iso_value :: "env \<Rightarrow> pyval \<Rightarrow> pyval" where
  "iso_value E v = (case v of VDatetime t \<Rightarrow> VStr (utc_isoformat E t) | _ \<Rightarrow> v)"

definition serialize_dict :: "env \<Rightarrow> doc \<Rightarrow> doc" where
  "serialize_dict E doc =
     (if doc = [] then doc
      else
        let d = (case map_of doc ''_id'' of
                   Some i \<Rightarrow> AList.update ''id'' (VStr (py_str E i)) (AList.delete ''_id'' doc)
                 | None \<Rightarrow> doc)
        in map (\<lambda>(k, v). (k, iso_value E v)) d)"

definition serialize :: "env \<Rightarrow> doc option \<Rightarrow> doc option" where
  "serialize E doc = (case doc of None \<Rightarrow> None | Some d \<Rightarrow> Some (serialize_dict E d))"

section \<open>The store\<close>

text \<open>
  A collection is the list of its documents in insertion order. A filter
  \<^verbatim>\<open>{field: value}\<close> selects the documents whose field equals the value or is an array
  that holds it (this is how \<^verbatim>\<open>{"tokens": token}\<close> finds the owner of a token); every
  operation on one document acts on the first that the filter selects.
\<close>

definition matches :: "string \<Rightarrow> pyval \<Rightarrow> doc \<Rightarrow> bool" where
  "matches k q d =
     (case map_of d k of
        None \<Rightarrow> False
      | Some v \<Rightarrow> v = q \<or> (case v of VList xs \<Rightarrow> List.member xs q | _ \<Rightarrow> False))"

definition find_one :: "doc list \<Rightarrow> string \<Rightarrow> pyval \<Rightarrow> doc option" where
  "find_one coll k q = List.find (matches k q) coll"

fun update_first :: "(doc \<Rightarrow> bool) \<Rightarrow> (doc \<Rightarrow> doc) \<Rightarrow> doc list \<Rightarrow> doc list" where
  "update_first P f [] = []"
| "update_first P f (d # ds) = (if P d then f d # ds else d # update_first P f ds)"


text \<open>\<^verbatim>\<open>{"$set": fields}\<close>.\<close>

fun set_fields :: "doc \<Rightarrow> doc \<Rightarrow> doc" where
  "set_fields d [] = d"
| "set_fields d ((f, v) # fs) = set_fields (AList.update f v d) fs"

definition update_one_set :: "doc list \<Rightarrow> string \<Rightarrow> pyval \<Rightarrow> doc \<Rightarrow> doc list" where
  "update_one_set coll k q upd = update_first (matches k q) (\<lambda>d. set_fields d upd) coll"

text \<open>
  \<^verbatim>\<open>{"$push": {field: v}}\<close>: appends to the array, creates it when the field is missing,
  and is refused by the server when the field holds anything else.
\<close>

definition push_field :: "doc \<Rightarrow> string \<Rightarrow> pyval \<Rightarrow> error + doc" where
  "push_field d f v =
     (case map_of d f of
        None \<Rightarrow> Inr (AList.update f (VList [v]) d)
      | Some (VList xs) \<Rightarrow> Inr (AList.update f (VList (xs @ [v])) d)
      | Some _ \<Rightarrow> Inl WriteError)"

definition update_one_push ::
  "doc list \<Rightarrow> string \<Rightarrow> pyval \<Rightarrow> string \<Rightarrow> pyval \<Rightarrow> error + doc list" where
  "update_one_push coll k q f v =
     (case find_one coll k q of
        None \<Rightarrow> Inr coll
      | Some d \<Rightarrow>
          (case push_field d f v of
             Inl e \<Rightarrow> Inl e
           | Inr d' \<Rightarrow> Inr (update_first (matches k q) (\<lambda>_. d') coll)))"


text \<open>
  \<^verbatim>\<open>insert_one\<close>: a document without \<^verbatim>\<open>_id\<close> gets the identifier the driver generated
  (\<open>oid\<close>); an identifier already in the collection is a duplicate key. The result is the
  new collection and \<^verbatim>\<open>inserted_id\<close>.
\<close>

definition insert_one :: "doc list \<Rightarrow> doc \<Rightarrow> ObjectId \<Rightarrow> error + doc list \<times> pyval" where
  "insert_one coll d oid =
     (let d' = (if map_of d ''_id'' = None then (''_id'', VOid oid) # d else d);
          i = dict_get d' ''_id''
      in if list_ex (\<lambda>e. map_of e ''_id'' = Some i) coll then Inl DuplicateKeyError
         else Inr (coll @ [d'], i))"

record db =
  user :: "doc list"
  service :: "doc list"
  booking :: "doc list"

text \<open>
  Modelled from the spec: \<^verbatim>\<open>database.create_document\<close> is imported by \<^verbatim>\<open>main.py\<close> and
  is not among the sources. The spec assumes a store that offers insert, and the callers
  pass the result to \<^verbatim>\<open>to_object_id\<close> to read the new document back: it inserts the
  document into the collection and returns the identifier as a string.
\<close>

definition create_document :: "env \<Rightarrow> doc list \<Rightarrow> doc \<Rightarrow> ObjectId \<Rightarrow> error + doc list \<times> string" where
  "create_document E coll data oid =
     (case insert_one coll data oid of
        Inl e \<Rightarrow> Inl e
      | Inr (coll', i) \<Rightarrow> Inr (coll', py_str E i))"

section \<open>Models (requests)\<close>

record SignupRequest =
  name :: string
  email :: string
  password :: string
  country :: "string option"
  province :: "string option"

record LoginRequest =
  email :: string
  password :: string

record ProviderModeRequest =
  enabled :: bool

record Question =
  q_id :: string
  q_text :: string
  q_type :: string
  q_required :: bool
  q_options :: "string list option"

record AvailabilitySlot =
  slot_start :: string
  slot_end :: string

record ServiceCreateRequest =
  name :: string
  description :: string
  price :: real
  category :: string
  country :: "string option"
  province :: "string option"
  photos :: "string list"
  videos :: "string list"
  questions :: "Question list"
  availability :: "AvailabilitySlot list"


record BookingAnswer =
  question_id :: string
  answer :: pyval

record BookingCreateRequest =
  service_id :: string
  scheduled_start :: "string option"
  scheduled_end :: "string option"
  message :: "string option"
  answers :: "BookingAnswer list"

record BookingStatusUpdate =
  status :: string

text \<open>
  The only constraint of a request model that the claims rely on: \<^verbatim>\<open>status\<close> must match
  \<^verbatim>\<open>^(accepted|declined|canceled)$\<close>, and a body that does not is refused before the
  handler runs.
\<close>

datatype validation_error = RequestValidationError

definition BookingStatusUpdate_validate :: "string \<Rightarrow> validation_error + BookingStatusUpdate" where
  "BookingStatusUpdate_validate s =
     (if s = ''accepted'' \<or> s = ''declined'' \<or> s = ''canceled''
      then Inr \<lparr>status = s\<rparr> else Inl RequestValidationError)"

subsection \<open>\<^verbatim>\<open>model_dump\<close>\<close>

definition opt_str :: "string option \<Rightarrow> pyval" where
  "opt_str x = (case x of None \<Rightarrow> VNone | Some s \<Rightarrow> VStr s)"

definition Question_dump :: "Question \<Rightarrow> pyval" where
  "Question_dump q =
     VDict [(''id'', VStr (q_id q)), (''text'', VStr (q_text q)), (''type'', VStr (q_type q)),
            (''required'', VBool (q_required q)),
            (''options'', case q_options q of None \<Rightarrow> VNone | Some xs \<Rightarrow> VList (map VStr xs))]"

definition AvailabilitySlot_dump :: "AvailabilitySlot \<Rightarrow> pyval" where
  "AvailabilitySlot_dump a = VDict [(''start'', VStr (slot_start a)), (''end'', VStr (slot_end a))]"

definition ServiceCreateRequest_dump :: "'a ServiceCreateRequest_scheme \<Rightarrow> doc" where
  "ServiceCreateRequest_dump r =
     [(''name'', VStr (ServiceCreateRequest.name r)),
      (''description'', VStr (description r)),
      (''price'', VNum (price r)),
      (''category'', VStr (category r)),
      (''country'', opt_str (ServiceCreateRequest.country r)),
      (''province'', opt_str (ServiceCreateRequest.province r)),
      (''photos'', VList (map VStr (photos r))),
      (''videos'', VList (map VStr (videos r))),
      (''questions'', VList (map Question_dump (questions r))),
      (''availability'', VList (map AvailabilitySlot_dump (availability r)))]"


definition BookingAnswer_dump :: "BookingAnswer \<Rightarrow> pyval" where
  "BookingAnswer_dump a = VDict [(''question_id'', VStr (question_id a)), (''answer'', answer a)]"

section \<open>Passwords and tokens\<close>

text \<open>
  \<^verbatim>\<open>hash_password\<close> returns the dict \<^verbatim>\<open>{"salt": salt, "hash": hashed}\<close>, here the pair
  of its two values. \<open>rnd\<close> stands for the bytes that \<^verbatim>\<open>secrets\<close> draws.
\<close>

definition hash_password :: "env \<Rightarrow> string \<Rightarrow> string option \<Rightarrow> 8 word list \<Rightarrow> string \<times> string" where
  "hash_password E pw salt rnd =
     (let s = (case salt of None \<Rightarrow> token_hex rnd | Some x \<Rightarrow> if x = [] then token_hex rnd else x)
      in (s, sha256_hexdigest E (s @ pw)))"

text \<open>
  \<^verbatim>\<open>verify_password\<close> receives the salt and the hash as the stored document holds them:
  \<^verbatim>\<open>salt + password\<close> raises \<^verbatim>\<open>TypeError\<close> unless the salt is a string.
\<close>

definition verify_password :: "env \<Rightarrow> string \<Rightarrow> pyval \<Rightarrow> pyval \<Rightarrow> error + bool" where
  "verify_password E pw salt hash_val =
     (case salt of
        VStr s \<Rightarrow> Inr (py_eq (VStr (sha256_hexdigest E (s @ pw))) hash_val)
      | _ \<Rightarrow> Inl TypeError)"

definition new_token :: "8 word list \<Rightarrow> string" where
  "new_token rnd = token_hex rnd"

section \<open>Auth dependency\<close>

definition get_current_user :: "env \<Rightarrow> db \<Rightarrow> string option \<Rightarrow> error + doc" where
  "get_current_user E st authorization =
     (case authorization of
        None \<Rightarrow> Inl (HTTPException 401 ''Missing Authorization header'')
      | Some a \<Rightarrow>
          if a = [] then Inl (HTTPException 401 ''Missing Authorization header'')
          else if \<not> startswith (lower a) ''bearer ''
          then Inl (HTTPException 401 ''Invalid auth scheme'')
          else
            (case split1 a of
               [_, rest] \<Rightarrow>
                 (let token = strip rest
                  in case find_one (user st) ''tokens'' (VStr token) of
                       None \<Rightarrow> Inl (HTTPException 401 ''Invalid or expired token'')
                     | Some u \<Rightarrow>
                         if u = [] then Inl (HTTPException 401 ''Invalid or expired token'')
                         else Inr (serialize_dict E u))
             | _ \<Rightarrow> Inl IndexError))"

section \<open>Authentication\<close>

text \<open>
  A handler takes the store and returns its result with the store it leaves behind. What
  the program draws at random or reads from the clock is an argument: the bytes behind a
  salt or a token, the identifier the driver gives a new document, the time.
\<close>

definition signup ::
  "env \<Rightarrow> db \<Rightarrow> SignupRequest \<Rightarrow> 8 word list \<Rightarrow> 8 word list \<Rightarrow> ObjectId \<Rightarrow> (error + doc) \<times> db" where
  "signup E st payload salt_rnd token_rnd oid =
     (let existing = find_one (user st) ''email'' (VStr (lower (SignupRequest.email payload)))
      in if doc_truthy existing
         then (Inl (HTTPException 409 ''Email already registered''), st)
         else
           let pwd = hash_password E (SignupRequest.password payload) None salt_rnd;
               token = new_token token_rnd;
               user_doc =
                 [(''name'', VStr (SignupRequest.name payload)),
                  (''email'', VStr (lower (SignupRequest.email payload))),
                  (''country'', opt_str (SignupRequest.country payload)),
                  (''province'', opt_str (SignupRequest.province payload)),
                  (''provider_mode'', VBool False),
                  (''avatar_url'', VNone),
                  (''password'', VDict [(''salt'', VStr (fst pwd)), (''hash'', VStr (snd pwd))]),
                  (''tokens'', VList [VStr token])]
           in case insert_one (user st) user_doc oid of
                Inl e \<Rightarrow> (Inl e, st)
              | Inr (coll, result_id) \<Rightarrow>
                  (Inr [(''user'',
                         VDict [(''id'', VStr (py_str E result_id)),
                                (''name'', VStr (SignupRequest.name payload)),
                                (''email'', VStr (SignupRequest.email payload)),
                                (''provider_mode'', VBool False)]),
                        (''token'', VStr token)],
                   st\<lparr>user := coll\<rparr>))"

definition login :: "env \<Rightarrow> db \<Rightarrow> LoginRequest \<Rightarrow> 8 word list \<Rightarrow> (error + doc) \<times> db" where
  "login E st payload token_rnd =
     (case find_one (user st) ''email'' (VStr (lower (LoginRequest.email payload))) of
        None \<Rightarrow> (Inl (HTTPException 401 ''Invalid credentials''), st)
      | Some u \<Rightarrow>
          if u = [] \<or> map_of u ''password'' = None
          then (Inl (HTTPException 401 ''Invalid credentials''), st)
          else
            (case val_getitem (dict_get u ''password'') ''salt'' of
               Inl e \<Rightarrow> (Inl e, st)
             | Inr salt \<Rightarrow>
            (case val_getitem (dict_get u ''password'') ''hash'' of
               Inl e \<Rightarrow> (Inl e, st)
             | Inr hash_val \<Rightarrow>
            (case verify_password E (LoginRequest.password payload) salt hash_val of
               Inl e \<Rightarrow> (Inl e, st)
             | Inr ok \<Rightarrow>
                 if \<not> ok then (Inl (HTTPException 401 ''Invalid credentials''), st)
                 else
                   let token = new_token token_rnd
                   in (case getitem u ''_id'' of
                         Inl e \<Rightarrow> (Inl e, st)
                       | Inr uid \<Rightarrow>
                      (case update_one_push (user st) ''_id'' uid ''tokens'' (VStr token) of
                         Inl e \<Rightarrow> (Inl e, st)
                       | Inr coll \<Rightarrow>
                           (Inr [(''user'', VDict (serialize_dict E u)), (''token'', VStr token)],
                            st\<lparr>user := coll\<rparr>)))))))"

definition me :: "doc \<Rightarrow> doc" where
  "me current = current"

text \<open>
  \<^verbatim>\<open>current\<close> is what \<^const>\<open>get_current_user\<close> returned, so \<^verbatim>\<open>current["id"]\<close> is the
  string \<^const>\<open>serialize_dict\<close> wrote; \<^verbatim>\<open>ObjectId\<close> of a value that is no string raises,
  which \<^verbatim>\<open>to_object_id\<close> turns into a 400.
\<close>

definition to_object_id_val :: "pyval \<Rightarrow> error + ObjectId" where
  "to_object_id_val v =
     (case v of VStr s \<Rightarrow> to_object_id s | _ \<Rightarrow> Inl (HTTPException 400 ''Invalid ID format''))"

definition set_provider_mode :: "db \<Rightarrow> ProviderModeRequest \<Rightarrow> doc \<Rightarrow> (error + doc) \<times> db" where
  "set_provider_mode st req current =
     (case getitem current ''id'' of
        Inl e \<Rightarrow> (Inl e, st)
      | Inr cid \<Rightarrow>
     (case to_object_id_val cid of
        Inl e \<Rightarrow> (Inl e, st)
      | Inr oid \<Rightarrow>
          (Inr [(''provider_mode'', VBool (enabled req))],
           st\<lparr>user := update_one_set (user st) ''_id'' (VOid oid)
                         [(''provider_mode'', VBool (enabled req))]\<rparr>)))"

section \<open>Services\<close>

definition create_service ::
  "env \<Rightarrow> db \<Rightarrow> ServiceCreateRequest \<Rightarrow> doc \<Rightarrow> ObjectId \<Rightarrow> (error + doc option) \<times> db" where
  "create_service E st data current oid =
     (if \<not> py_truthy (dict_get current ''provider_mode'')
      then (Inl (HTTPException 403 ''Enable provider mode to create services''), st)
      else
        (case getitem current ''id'' of
           Inl e \<Rightarrow> (Inl e, st)
         | Inr cid \<Rightarrow>
             let doc = AList.update ''provider_id'' cid (ServiceCreateRequest_dump data)
             in (case create_document E (service st) doc oid of
                   Inl e \<Rightarrow> (Inl e, st)
                 | Inr (coll, new_id) \<Rightarrow>
                     let st' = st\<lparr>service := coll\<rparr>
                     in (case to_object_id new_id of
                           Inl e \<Rightarrow> (Inl e, st')
                         | Inr i \<Rightarrow> (Inr (serialize E (find_one coll ''_id'' (VOid i))), st')))))"

definition get_service :: "env \<Rightarrow> db \<Rightarrow> string \<Rightarrow> error + doc option" where
  "get_service E st service_id' =
     (case to_object_id service_id' of
        Inl e \<Rightarrow> Inl e
      | Inr oid \<Rightarrow>
          let svc = find_one (service st) ''_id'' (VOid oid)
          in if \<not> doc_truthy svc then Inl (HTTPException 404 ''Service not found'')
             else Inr (serialize E svc))"



section \<open>Bookings\<close>

definition create_booking ::
  "env \<Rightarrow> db \<Rightarrow> BookingCreateRequest \<Rightarrow> doc \<Rightarrow> ObjectId \<Rightarrow> (error + doc option) \<times> db" where
  "create_booking E st data current oid =
     (case to_object_id (service_id data) of
        Inl e \<Rightarrow> (Inl e, st)
      | Inr sid \<Rightarrow>
     (case find_one (service st) ''_id'' (VOid sid) of
        None \<Rightarrow> (Inl (HTTPException 404 ''Service not found''), st)
      | Some svc \<Rightarrow>
          if svc = [] then (Inl (HTTPException 404 ''Service not found''), st)
          else
            (case getitem svc ''provider_id'' of
               Inl e \<Rightarrow> (Inl e, st)
             | Inr pid \<Rightarrow>
            (case getitem current ''id'' of
               Inl e \<Rightarrow> (Inl e, st)
             | Inr cid \<Rightarrow>
                 let doc =
                       [(''service_id'', VStr (service_id data)),
                        (''provider_id'', pid),
                        (''customer_id'', cid),
                        (''scheduled_start'', opt_str (scheduled_start data)),
                        (''scheduled_end'', opt_str (scheduled_end data)),
                        (''message'', opt_str (message data)),
                        (''answers'', VList (map BookingAnswer_dump (answers data))),
                        (''status'', VStr ''pending''),
                        (''total_price'', dict_get svc ''price'')]
                 in (case create_document E (booking st) doc oid of
                       Inl e \<Rightarrow> (Inl e, st)
                     | Inr (coll, new_id) \<Rightarrow>
                         let st' = st\<lparr>booking := coll\<rparr>
                         in (case to_object_id new_id of
                               Inl e \<Rightarrow> (Inl e, st')
                             | Inr i \<Rightarrow>
                                 (Inr (serialize E (find_one coll ''_id'' (VOid i))), st')))))))"

definition update_booking_status ::
  "env \<Rightarrow> db \<Rightarrow> string \<Rightarrow> BookingStatusUpdate \<Rightarrow> doc \<Rightarrow> datetime \<Rightarrow> (error + doc option) \<times> db" where
  "update_booking_status E st booking_id req current now =
     (case to_object_id booking_id of
        Inl e \<Rightarrow> (Inl e, st)
      | Inr oid \<Rightarrow>
     (case find_one (booking st) ''_id'' (VOid oid) of
        None \<Rightarrow> (Inl (HTTPException 404 ''Booking not found''), st)
      | Some bk \<Rightarrow>
          if bk = [] then (Inl (HTTPException 404 ''Booking not found''), st)
          else
            (case getitem current ''id'' of
               Inl e \<Rightarrow> (Inl e, st)
             | Inr cid \<Rightarrow>
                 if \<not> py_eq (dict_get bk ''provider_id'') cid
                 then (Inl (HTTPException 403 ''Only provider can change status''), st)
                 else
                   (case getitem bk ''_id'' of
                      Inl e \<Rightarrow> (Inl e, st)
                    | Inr bid \<Rightarrow>
                        let coll = update_one_set (booking st) ''_id'' bid
                                     [(''status'', VStr (status req)), (''updated_at'', VDatetime now)]
                        in (Inr (serialize E (find_one coll ''_id'' bid)),
                            st\<lparr>booking := coll\<rparr>)))))"

text \<open>
  The route as the framework runs it on a raw body: the request model is built (and its
  pattern checked) before the function is called.
\<close>

definition patch_booking_status ::
  "env \<Rightarrow> db \<Rightarrow> string \<Rightarrow> string \<Rightarrow> doc \<Rightarrow> datetime
     \<Rightarrow> (validation_error + error + doc option) \<times> db" where
  "patch_booking_status E st booking_id raw_status current now =
     (case BookingStatusUpdate_validate raw_status of
        Inl e \<Rightarrow> (Inl e, st)
      | Inr req \<Rightarrow>
          (case update_booking_status E st booking_id req current now of
             (r, st') \<Rightarrow> (Inr r, st')))"

section \<open>Concrete data to run the model on\<close>

text \<open>
  An environment whose library functions are stand-ins (the theorems below hold for every
  environment), and documents as the handlers store them.
\<close>

definition env0 :: env where
  "env0 = \<lparr>sha256_hexdigest = rev, utc_isoformat = (\<lambda>t. ''2024-01-01T00:00:00+00:00''),
           str_other = (\<lambda>v. ''?'')\<rparr>"


definition user1 :: doc where
  "user1 =
     [(''_id'', VOid 1), (''name'', VStr ''Ann''), (''email'', VStr ''ann@x.com''),
      (''country'', VNone), (''province'', VNone), (''provider_mode'', VBool True),
      (''avatar_url'', VNone),
      (''password'', VDict [(''salt'', VStr ''s''), (''hash'', VStr ''wps'')]),
      (''tokens'', VList [VStr ''aa''])]"

definition service1 :: doc where
  "service1 =
     [(''_id'', VOid 2), (''name'', VStr ''Lawn''), (''description'', VStr ''Mowing''),
      (''price'', VNum 100), (''category'', VStr ''garden''),
      (''provider_id'', VStr ''000000000000000000000001'')]"

definition booking1 :: doc where
  "booking1 =
     [(''_id'', VOid 3), (''service_id'', VStr ''000000000000000000000002''),
      (''provider_id'', VStr ''000000000000000000000001''),
      (''customer_id'', VStr ''000000000000000000000009''),
      (''status'', VStr ''pending''), (''total_price'', VNum 100)]"

definition st0 :: db where
  "st0 = \<lparr>user = [user1], service = [service1], booking = [booking1]\<rparr>"

text \<open>The caller as the auth dependency hands it over: the serialized user.\<close>

definition ann :: doc where
  "ann = [(''id'', VStr ''000000000000000000000001''), (''provider_mode'', VBool True)]"

definition bob :: doc where
  "bob = [(''id'', VStr ''000000000000000000000009''), (''provider_mode'', VBool False)]"


section \<open>Lemmas on the library and the store\<close>


lemma find_SomeP: "List.find P xs = Some a \<Longrightarrow> P a"
  by (auto simp: find_Some_iff)

lemma find_one_SomeD: "find_one coll k q = Some d \<Longrightarrow> d \<in> set coll \<and> matches k q d"
  unfolding find_one_def by (auto simp: find_Some_iff)


lemma find_update_first_same:
  "List.find P xs = Some d \<Longrightarrow> P (f d) \<Longrightarrow> List.find P (update_first P f xs) = Some (f d)"
  by (induction xs) (auto split: if_splits)

lemma find_update_first_other:
  assumes "\<And>d. d \<in> set xs \<Longrightarrow> P d \<Longrightarrow> Q (f d) = Q d"
  shows "List.find Q (update_first P f xs) =
         (case List.find Q xs of None \<Rightarrow> None
          | Some c \<Rightarrow> Some (if List.find P xs = Some c then f c else c))"
  using assms by (induction xs) (auto split: option.splits dest: find_SomeP)

lemma find_update_first_new:
  "\<forall>d\<in>set xs. \<not> Q d \<Longrightarrow> List.find P xs = Some u \<Longrightarrow> Q (f u)
   \<Longrightarrow> List.find Q (update_first P f xs) = Some (f u)"
  by (induction xs) (auto split: if_splits)

lemma map_of_set_fields:
  "map_of (set_fields d fs) k = (case map_of (rev fs) k of None \<Rightarrow> map_of d k | Some v \<Rightarrow> Some v)"
  by (induction d fs rule: set_fields.induct) (auto simp: update_conv' split: option.splits)

subsection \<open>What \<^const>\<open>serialize_dict\<close> does to each key\<close>






subsection \<open>Updating one document\<close>

lemma find_one_update_one_set:
  assumes "find_one coll ''_id'' q = Some d" "map_of upd ''_id'' = None"
  shows "find_one (update_one_set coll ''_id'' q upd) ''_id'' q = Some (set_fields d upd)"
proof -
  have m: "matches ''_id'' q d" using assms(1) find_one_SomeD by blast
  have "map_of (rev upd) ''_id'' = None"
    using assms(2) by (simp add: map_of_eq_None_iff)
  hence "map_of (set_fields d upd) ''_id'' = map_of d ''_id''"
    by (simp add: map_of_set_fields)
  hence "matches ''_id'' q (set_fields d upd)" using m by (simp add: matches_def)
  thus ?thesis using assms(1)
    unfolding find_one_def update_one_set_def by (rule find_update_first_same[rotated])
qed

lemma update_booking_status_ok:
  assumes "to_object_id booking_id = Inr oid"
    and "find_one (booking st) ''_id'' (VOid oid) = Some bk"
    and "map_of bk ''_id'' = Some (VOid oid)"
    and "getitem current ''id'' = Inr cid"
    and "py_eq (dict_get bk ''provider_id'') cid"
  shows "update_booking_status E st booking_id req current now =
           (Inr (Some (serialize_dict E (set_fields bk [(''status'', VStr (status req)), (''updated_at'', VDatetime now)]))),
            st\<lparr>booking := update_one_set (booking st) ''_id'' (VOid oid)
                 [(''status'', VStr (status req)), (''updated_at'', VDatetime now)]\<rparr>)"
proof -
  have ne: "bk \<noteq> []" using assms(3) by auto
  have gi: "getitem bk ''_id'' = Inr (VOid oid)" using assms(3) by (simp add: getitem_def)
  have f: "find_one (update_one_set (booking st) ''_id'' (VOid oid)
             [(''status'', VStr (status req)), (''updated_at'', VDatetime now)]) ''_id'' (VOid oid)
           = Some (set_fields bk [(''status'', VStr (status req)), (''updated_at'', VDatetime now)])"
    by (rule find_one_update_one_set[OF assms(2)]) simp
  show ?thesis
    unfolding update_booking_status_def
    by (simp add: assms ne gi f serialize_def Let_def del: set_fields.simps)
qed





subsection \<open>Evaluating the model on the concrete data\<close>

lemma toid3: "to_object_id ''000000000000000000000003'' = Inr 3"
  by (simp add: to_object_id_def hex_val_def)



lemmas world_defs = st0_def user1_def service1_def booking1_def ann_def bob_def
  find_one_def matches_def getitem_def dict_get_def



section \<open>The claims\<close>

subsection \<open>C8: the serializer\<close>




subsection \<open>C1: existence is checked before ownership\<close>







subsection \<open>C2: status transitions are unconditional\<close>

text \<open>
  C2. For a booking that exists under its identifier, a caller whose id equals the
  booking's \<^verbatim>\<open>provider_id\<close> and any new status among accepted, declined and canceled,
  the update succeeds whatever the current status is: the stored booking then has the new
  status and \<^verbatim>\<open>updated_at\<close> set to the time of the call, and the response is its
  serialization. The booking keeps its identifier and its \<^verbatim>\<open>provider_id\<close>, so the same
  holds again for the next update (repeated flips). Any other status value is rejected by
  the request model before the handler runs, and the store is unchanged.
\<close>

theorem update_status_any_state:
  "(s \<in> {''accepted'', ''declined'', ''canceled''} \<and>
    to_object_id booking_id = Inr oid \<and>
    find_one (booking st) ''_id'' (VOid oid) = Some bk \<and>
    map_of bk ''_id'' = Some (VOid oid) \<and>
    getitem current ''id'' = Inr cid \<and>
    py_eq (dict_get bk ''provider_id'') cid
    \<longrightarrow> (\<exists>bk' st'.
          patch_booking_status E st booking_id s current now
            = (Inr (Inr (Some (serialize_dict E bk'))), st') \<and>
          find_one (booking st') ''_id'' (VOid oid) = Some bk' \<and>
          map_of bk' ''status'' = Some (VStr s) \<and>
          map_of bk' ''updated_at'' = Some (VDatetime now) \<and>
          map_of bk' ''_id'' = Some (VOid oid) \<and>
          dict_get bk' ''provider_id'' = dict_get bk ''provider_id'')) \<and>
   (s \<notin> {''accepted'', ''declined'', ''canceled''}
    \<longrightarrow> patch_booking_status E st booking_id s current now = (Inl RequestValidationError, st))"
proof (intro conjI impI)
  assume a: "s \<in> {''accepted'', ''declined'', ''canceled''} \<and>
    to_object_id booking_id = Inr oid \<and>
    find_one (booking st) ''_id'' (VOid oid) = Some bk \<and>
    map_of bk ''_id'' = Some (VOid oid) \<and>
    getitem current ''id'' = Inr cid \<and>
    py_eq (dict_get bk ''provider_id'') cid"
  let ?upd = "[(''status'', VStr s), (''updated_at'', VDatetime now)]"
  let ?bk = "set_fields bk ?upd"
  let ?st = "st\<lparr>booking := update_one_set (booking st) ''_id'' (VOid oid) ?upd\<rparr>"
  have v: "BookingStatusUpdate_validate s = Inr \<lparr>status = s\<rparr>"
    using a by (auto simp: BookingStatusUpdate_validate_def)
  have r: "update_booking_status E st booking_id \<lparr>status = s\<rparr> current now
             = (Inr (Some (serialize_dict E ?bk)), ?st)"
    using update_booking_status_ok[where req="\<lparr>status = s\<rparr>" and E=E and now=now] a
    by simp
  have p: "patch_booking_status E st booking_id s current now
             = (Inr (Inr (Some (serialize_dict E ?bk))), ?st)"
    by (simp add: patch_booking_status_def v r del: set_fields.simps)
  have f: "find_one (booking ?st) ''_id'' (VOid oid) = Some ?bk"
    using find_one_update_one_set[where coll="booking st" and upd="?upd"] a by simp
  have m: "map_of ?bk ''status'' = Some (VStr s)" "map_of ?bk ''updated_at'' = Some (VDatetime now)"
    "map_of ?bk ''_id'' = Some (VOid oid)" "dict_get ?bk ''provider_id'' = dict_get bk ''provider_id''"
    using a by (simp_all add: map_of_set_fields dict_get_def del: set_fields.simps)
  show "\<exists>bk' st'.
          patch_booking_status E st booking_id s current now
            = (Inr (Inr (Some (serialize_dict E bk'))), st') \<and>
          find_one (booking st') ''_id'' (VOid oid) = Some bk' \<and>
          map_of bk' ''status'' = Some (VStr s) \<and>
          map_of bk' ''updated_at'' = Some (VDatetime now) \<and>
          map_of bk' ''_id'' = Some (VOid oid) \<and>
          dict_get bk' ''provider_id'' = dict_get bk ''provider_id''"
    using p f m by blast
next
  assume "s \<notin> {''accepted'', ''declined'', ''canceled''}"
  thus "patch_booking_status E st booking_id s current now = (Inl RequestValidationError, st)"
    by (simp add: patch_booking_status_def BookingStatusUpdate_validate_def)
qed


theorem update_status_any_state_witness:
  "(\<exists>bk' st'.
      patch_booking_status env0 st0 ''000000000000000000000003'' ''declined'' ann (Datetime 7)
        = (Inr (Inr (Some (serialize_dict env0 bk'))), st') \<and>
      find_one (booking st') ''_id'' (VOid 3) = Some bk' \<and>
      map_of bk' ''status'' = Some (VStr ''declined'') \<and>
      map_of bk' ''updated_at'' = Some (VDatetime (Datetime 7)) \<and>
      map_of bk' ''_id'' = Some (VOid 3) \<and>
      dict_get bk' ''provider_id'' = dict_get booking1 ''provider_id'') \<and>
   patch_booking_status env0 st0 ''000000000000000000000003'' ''pending'' ann (Datetime 7)
     = (Inl RequestValidationError, st0)"
  using update_status_any_state[where s="''declined''" and booking_id="''000000000000000000000003''"
      and oid=3 and st=st0 and bk=booking1 and current=ann
      and cid="VStr ''000000000000000000000001''" and E=env0 and now="Datetime 7"]
    update_status_any_state[where s="''pending''" and booking_id="''000000000000000000000003''"
      and st=st0 and current=ann and E=env0 and now="Datetime 7"]
  by (simp add: toid3 world_defs)

subsection \<open>C10: a status update touches two fields\<close>

text \<open>
  C10. After a successful status update the booking is still found under its identifier,
  and every field other than \<^verbatim>\<open>status\<close> and \<^verbatim>\<open>updated_at\<close> (so \<^verbatim>\<open>service_id\<close>,
  \<^verbatim>\<open>provider_id\<close>, \<^verbatim>\<open>customer_id\<close>, the schedule, \<^verbatim>\<open>message\<close>, \<^verbatim>\<open>answers\<close>,
  \<^verbatim>\<open>total_price\<close>, and the identifier itself) has the value it had, or is absent as it
  was; users and services are not touched.
\<close>

theorem update_status_frame:
  "to_object_id booking_id = Inr oid \<and>
   find_one (booking st) ''_id'' (VOid oid) = Some bk \<and>
   map_of bk ''_id'' = Some (VOid oid) \<and>
   update_booking_status E st booking_id req current now = (Inr view, st') \<and>
   k \<noteq> ''status'' \<and> k \<noteq> ''updated_at''
   \<longrightarrow> (\<exists>bk'. find_one (booking st') ''_id'' (VOid oid) = Some bk' \<and>
             map_of bk' k = map_of bk k \<and>
             user st' = user st \<and> service st' = service st)"
proof
  assume a: "to_object_id booking_id = Inr oid \<and>
   find_one (booking st) ''_id'' (VOid oid) = Some bk \<and>
   map_of bk ''_id'' = Some (VOid oid) \<and>
   update_booking_status E st booking_id req current now = (Inr view, st') \<and>
   k \<noteq> ''status'' \<and> k \<noteq> ''updated_at''"
  let ?upd = "[(''status'', VStr (status req)), (''updated_at'', VDatetime now)]"
  have gi: "getitem bk ''_id'' = Inr (VOid oid)" using a by (simp add: getitem_def)
  have st': "st' = st\<lparr>booking := update_one_set (booking st) ''_id'' (VOid oid) ?upd\<rparr>"
    using a unfolding update_booking_status_def
    by (auto simp: gi Let_def split: if_splits sum.splits simp del: set_fields.simps)
  have f: "find_one (booking st') ''_id'' (VOid oid) = Some (set_fields bk ?upd)"
    using find_one_update_one_set[where coll="booking st" and upd="?upd"] a st' by simp
  have "map_of (set_fields bk ?upd) k = map_of bk k"
    using a by (simp add: map_of_set_fields del: set_fields.simps)
  thus "\<exists>bk'. find_one (booking st') ''_id'' (VOid oid) = Some bk' \<and>
             map_of bk' k = map_of bk k \<and> user st' = user st \<and> service st' = service st"
    using f st' by simp
qed

theorem update_status_frame_witness:
  "\<exists>bk'. find_one (booking (snd (update_booking_status env0 st0 ''000000000000000000000003''
             \<lparr>status = ''accepted''\<rparr> ann (Datetime 7)))) ''_id'' (VOid 3) = Some bk' \<and>
          map_of bk' ''total_price'' = Some (VNum 100)"
proof -
  obtain view st' where r: "update_booking_status env0 st0 ''000000000000000000000003''
             \<lparr>status = ''accepted''\<rparr> ann (Datetime 7) = (Inr view, st')"
    by (simp add: update_booking_status_def toid3 world_defs Let_def)
  have h: "find_one (booking st0) ''_id'' (VOid 3) = Some booking1"
    "map_of booking1 ''_id'' = Some (VOid 3)"
    by (simp_all add: world_defs)
  have "\<exists>bk'. find_one (booking st') ''_id'' (VOid 3) = Some bk' \<and>
          map_of bk' ''total_price'' = map_of booking1 ''total_price''"
    using update_status_frame[where booking_id="''000000000000000000000003''" and oid=3 and st=st0
        and bk=booking1 and E=env0 and req="\<lparr>status = ''accepted''\<rparr>" and current=ann
        and now="Datetime 7" and view=view and st'=st' and k="''total_price''"] r h toid3
    by auto
  thus ?thesis by (simp add: r booking1_def)
qed

end
